theory Spec2Isabelle
  imports Main "HOL-Library.AList"
begin

section \<open>Shared values: statuses, results, exceptions\<close>

text \<open>
  \<^verbatim>\<open>ExecutionStatus\<close> and \<^verbatim>\<open>InternalOperationResult\<close> are imported by both
  modules. A result carries a status and a message; the message is absent, a text, or (in
  \<^verbatim>\<open>export_obj_to_prproj\<close>) the exception object that was caught.
\<close>

datatype ExecutionStatus = SUCCESS | FATAL_ERROR | FIXABLE_ERROR

datatype exn = Exception string | TypeError | AttributeError

datatype message = No_message | Text string | Caught exn

record InternalOperationResult =
  status :: ExecutionStatus
  message :: message

definition sq :: string where
  "sq = [CHR 0x27]"

definition dq :: string where
  "dq = [CHR 0x22]"

text \<open>Python's \<^verbatim>\<open>sep.join(items)\<close>.\<close>

fun str_join :: "string \<Rightarrow> string list \<Rightarrow> string" where
  "str_join sep [] = []"
| "str_join sep [x] = x"
| "str_join sep (x # y # ys) = x @ sep @ str_join sep (y # ys)"

section \<open>PPROCommandBuilder\<close>

text \<open>
  The builder object has two string fields. Every method returns the mutated builder;
  \<^verbatim>\<open>append_script_including\<close> can raise, so it returns a sum.
\<close>

record PPROCommandBuilder =
  base_command :: string
  script_to_include :: string

definition PPROCommandBuilder_init :: "string \<Rightarrow> PPROCommandBuilder" where
  "PPROCommandBuilder_init base =
     \<lparr>base_command = base @ '' '' @ dq, script_to_include = []\<rparr>"

text \<open>
  \<^verbatim>\<open>_list_to_array\<close>: items are given by the text \<^verbatim>\<open>'{}'.format(item)\<close>
  renders for them.
\<close>

definition list_to_array :: "string list \<Rightarrow> string" where
  "list_to_array source_list =
     (if source_list = [] then ''[]''
      else ''['' @ str_join '', '' (map (\<lambda>item. sq @ item @ sq) source_list) @ '']'')"

definition append_opening_document :: "string \<Rightarrow> PPROCommandBuilder \<Rightarrow> PPROCommandBuilder" where
  "append_opening_document path b =
     b\<lparr>base_command := base_command b @ ''app.openDocument('' @ sq @ path @ sq @ '');''\<rparr>"

definition append_script_including :: "string \<Rightarrow> PPROCommandBuilder \<Rightarrow> exn + PPROCommandBuilder" where
  "append_script_including path b =
     (if script_to_include b \<noteq> [] then Inl (Exception ''Command already contains script including'')
      else Inr (b\<lparr>script_to_include := '' //@include '' @ sq @ path @ sq\<rparr>))"

definition append_eval_file :: "string \<Rightarrow> PPROCommandBuilder \<Rightarrow> PPROCommandBuilder" where
  "append_eval_file path b =
     b\<lparr>base_command := base_command b @ '' $.evalFile('' @ dq @ path @ dq @ '');''\<rparr>"

definition append_string_const :: "string \<Rightarrow> string \<Rightarrow> PPROCommandBuilder \<Rightarrow> PPROCommandBuilder" where
  "append_string_const const_name const_value b =
     b\<lparr>base_command := base_command b @ '' const '' @ const_name @ '' = '' @ sq @ const_value @ sq @ '';''\<rparr>"

definition append_const_array :: "string \<Rightarrow> string list \<Rightarrow> PPROCommandBuilder \<Rightarrow> PPROCommandBuilder" where
  "append_const_array const_name const_values b =
     b\<lparr>base_command := base_command b @ '' const '' @ const_name @ '' = '' @ list_to_array const_values @ '';''\<rparr>"

definition append_bool_value :: "string \<Rightarrow> bool \<Rightarrow> PPROCommandBuilder \<Rightarrow> PPROCommandBuilder" where
  "append_bool_value bool_name bool_value b =
     b\<lparr>base_command := base_command b @ '' var '' @ bool_name @ '' = Boolean(''
          @ (if bool_value then ''true'' else ''false'') @ '');''\<rparr>"

text \<open>
  \<^verbatim>\<open>append_dict(name, source_dict, val_type)\<close>: the dictionary is an association list in
  iteration order. The constructor records the branch \<^verbatim>\<open>val_type is list\<close> takes:
  \<open>List_valued\<close> for \<^verbatim>\<open>val_type = list\<close> (every value a list of items),
  \<open>Scalar_valued\<close> for any other \<^verbatim>\<open>val_type\<close> (every value given by the text
  \<^verbatim>\<open>'{}'.format(val)\<close> renders).
\<close>

datatype source_dict =
  List_valued "(string \<times> string list) list"
| Scalar_valued "(string \<times> string) list"

definition append_dict :: "string \<Rightarrow> source_dict \<Rightarrow> PPROCommandBuilder \<Rightarrow> PPROCommandBuilder" where
  "append_dict name source b =
     (let data = (case source of
                    List_valued d \<Rightarrow>
                      str_join '', '' (map (\<lambda>(key, val). sq @ key @ sq @ '': '' @ list_to_array val) d)
                  | Scalar_valued d \<Rightarrow>
                      str_join '', '' (map (\<lambda>(key, val). sq @ key @ sq @ '': '' @ val) d))
      in b\<lparr>base_command := base_command b @ '' var '' @ name @ '' = {'' @ data @ ''};''\<rparr>)"

text \<open>\<^verbatim>\<open>build\<close> mutates \<^verbatim>\<open>base_command\<close> and returns the command text.\<close>

definition build :: "PPROCommandBuilder \<Rightarrow> string \<times> PPROCommandBuilder" where
  "build b =
     (let b' = (if script_to_include b \<noteq> []
                then b\<lparr>base_command := base_command b @ script_to_include b\<rparr> else b)
      in (base_command b' @ dq, b'))"

text \<open>
  A sequence of chained append calls on one builder. A call that raises ends the chain,
  as the exception would.
\<close>

datatype append_call =
  Opening_document string
| Script_including string
| Eval_file string
| String_const string string
| Const_array string "string list"
| Bool_value string bool
| Dict string source_dict

fun call :: "append_call \<Rightarrow> PPROCommandBuilder \<Rightarrow> exn + PPROCommandBuilder" where
  "call (Opening_document path) b = Inr (append_opening_document path b)"
| "call (Script_including path) b = append_script_including path b"
| "call (Eval_file path) b = Inr (append_eval_file path b)"
| "call (String_const n v) b = Inr (append_string_const n v b)"
| "call (Const_array n vs) b = Inr (append_const_array n vs b)"
| "call (Bool_value n v) b = Inr (append_bool_value n v b)"
| "call (Dict n d) b = Inr (append_dict n d b)"

fun calls :: "append_call list \<Rightarrow> PPROCommandBuilder \<Rightarrow> exn + PPROCommandBuilder" where
  "calls [] b = Inr b"
| "calls (c # cs) b = (case call c b of Inl e \<Rightarrow> Inl e | Inr b' \<Rightarrow> calls cs b')"

fun is_script_including :: "append_call \<Rightarrow> bool" where
  "is_script_including (Script_including path) = True"
| "is_script_including c = False"

section \<open>Export: build_ppro_command and export_obj_to_prproj\<close>

text \<open>
  Database objects as the export code reads them: \<^verbatim>\<open>name\<close> and \<^verbatim>\<open>os_path\<close>.
  A SubStep adds the attributes \<^verbatim>\<open>get_target_step_files\<close> reads.
\<close>

record db_object =
  name :: string
  os_path :: string

record SubStep = db_object +
  is_videos_ok :: bool
  os_screencast_path :: string
  screencast_name :: string
  camera_recording_name :: string

text \<open>
  What the module reads from outside: the Django settings, the file system, the library
  functions of \<^verbatim>\<open>os.path\<close>, \<^verbatim>\<open>FileSystemClient\<close>, the database query for the
  SubSteps of a step (already ordered by start time), the synchronization collaborators,
  and the text \<^verbatim>\<open>'{}'.format(x)\<close> renders for a number. An unset
  \<^verbatim>\<open>ADOBE_PPRO_PATH\<close> is \<open>None\<close>.
\<close>

record export_env =
  ADOBE_PPRO_PATH :: "string option"
  ADOBE_PPRO_CMD :: string
  module_dir :: string
  os_path_join :: "string \<Rightarrow> string \<Rightarrow> string"
  os_path_dirname :: "string \<Rightarrow> string"
  os_path_isfile :: "string \<Rightarrow> bool"
  replace_sep :: "string \<Rightarrow> string"
  translate_non_alphanumerics :: "string \<Rightarrow> string"
  format_number :: "int \<Rightarrow> string"
  process_with_name_exists :: "string \<Rightarrow> bool"
  execute_command_sync :: "string \<Rightarrow> int \<Rightarrow> InternalOperationResult"
  substeps_of :: "db_object \<Rightarrow> SubStep list"
  get_sync_offset :: "SubStep \<Rightarrow> int"
  get_diff_times :: "string \<Rightarrow> int list"

definition PRPROJ_TEMPLATE :: string where
  "PRPROJ_TEMPLATE = ''template.prproj''"

definition PRPROJ_REQUIRED_FILE :: string where
  "PRPROJ_REQUIRED_FILE = ''extendscriptprqe.txt''"

definition PRPROJ_PRESET :: string where
  "PRPROJ_PRESET = ''ppro.sqpreset''"

definition PRPROJ_SCRIPT :: string where
  "PRPROJ_SCRIPT = ''create_deep_structured_project.jsx''"

definition PRPROJ_TEMPLATES_PATH :: "export_env \<Rightarrow> string" where
  "PRPROJ_TEMPLATES_PATH env = os_path_join env (module_dir env) ''adobe_templates''"

definition PPRO_WIN_PROCESS_NAME :: string where
  "PPRO_WIN_PROCESS_NAME = ''Adobe Premiere Pro.exe''"

type_synonym target_files =
  "string list \<times> string list \<times> (string \<times> int list) list \<times> (string \<times> int) list"

definition build_ppro_command ::
  "export_env \<Rightarrow> string \<Rightarrow> string \<Rightarrow> string list \<Rightarrow> string list \<Rightarrow>
   (string \<times> int list) list \<Rightarrow> (string \<times> int) list \<Rightarrow> string \<Rightarrow> exn + string" where
  "build_ppro_command env base_path templates_path screen_files prof_files marker_times
       sync_offsets output_name =
     (case ADOBE_PPRO_PATH env of
        None \<Rightarrow> Inl (Exception (''Adobe PremierePro configuration is missing. ''
                   @ ''Please, specify path to PremierePro in config file.''))
      | Some ppro_path \<Rightarrow>
          if ppro_path = [] then
            Inl (Exception (''Adobe PremierePro configuration is missing. ''
                   @ ''Please, specify path to PremierePro in config file.''))
          else
            let base_cmd = dq @ ppro_path @ dq @ '' '' @ ADOBE_PPRO_CMD env;
                prproj_template_path = os_path_join env templates_path PRPROJ_TEMPLATE;
                prproj_preset_path = os_path_join env templates_path PRPROJ_PRESET;
                script_path = os_path_join env (os_path_join env (module_dir env) ''adobe_scripts'')
                                PRPROJ_SCRIPT
            in if \<not> os_path_isfile env prproj_template_path then
                 Inl (Exception (''Template of PremierPro project is missing. ''
                        @ ''Please, create empty PPro project at '' @ prproj_template_path))
               else if \<not> os_path_isfile env prproj_preset_path then
                 Inl (Exception (''.sqpreset sequence template file is missing. ''
                        @ ''Please, put .sqpreset at '' @ prproj_preset_path))
               else
                 (case append_script_including (replace_sep env script_path)
                    (append_dict ''syncOffsets''
                       (Scalar_valued (map (\<lambda>(key, val). (key, format_number env val)) sync_offsets))
                    (append_dict ''markerTimes''
                       (List_valued (map (\<lambda>(key, val). (key, map (format_number env) val)) marker_times))
                    (append_bool_value ''needSync'' True
                    (append_const_array ''professorVideos'' prof_files
                    (append_const_array ''screenVideos'' screen_files
                    (append_string_const ''presetPath'' (replace_sep env prproj_preset_path)
                    (append_string_const ''basePath'' (replace_sep env base_path)
                    (append_string_const ''outputName'' output_name
                    (append_opening_document (replace_sep env prproj_template_path)
                    (PPROCommandBuilder_init base_cmd)))))))))) of
                    Inl e \<Rightarrow> Inl e
                  | Inr b \<Rightarrow> Inr (fst (build b))))"

text \<open>
  The calls \<^verbatim>\<open>export_obj_to_prproj\<close> makes to its collaborators, in order. The function
  returns its outcome (a result, or the exception that leaves it) and this trace.
\<close>

datatype export_call =
  Process_with_name_exists string
| Files_extractor
| Build_ppro_command
| Execute_command_sync string int

definition export_obj_to_prproj ::
  "export_env \<Rightarrow> db_object \<Rightarrow> (db_object \<Rightarrow> target_files) \<Rightarrow>
   (exn + InternalOperationResult) \<times> export_call list" where
  "export_obj_to_prproj env db_obj files_extractor =
     (case ADOBE_PPRO_PATH env of
        None \<Rightarrow> (Inl TypeError, [])
      | Some ppro_path \<Rightarrow>
          let ppro_dir = os_path_dirname env ppro_path in
          if \<not> os_path_isfile env (os_path_join env ppro_dir PRPROJ_REQUIRED_FILE) then
            (Inr \<lparr>status = FATAL_ERROR,
                  message = Text (sq @ PRPROJ_REQUIRED_FILE @ sq @ '' is missing. Please, place ''
                    @ sq @ PRPROJ_REQUIRED_FILE @ sq @ '' empty file to '' @ [CHR 0x0A]
                    @ sq @ ppro_dir @ sq @ ''.'')\<rparr>, [])
          else
            let tr1 = [Process_with_name_exists PPRO_WIN_PROCESS_NAME] in
            if process_with_name_exists env PPRO_WIN_PROCESS_NAME then
              (Inr \<lparr>status = FATAL_ERROR,
                    message = Text ''Only one instance of PPro may exist. Please, close PPro and try again.''\<rparr>,
               tr1)
            else
              let (screen_files, prof_files, marker_times, sync_offsets) = files_extractor db_obj;
                  tr2 = tr1 @ [Files_extractor]
              in if screen_files = [] \<or> prof_files = [] then
                   (Inr \<lparr>status = FATAL_ERROR,
                         message = Text ''Object is empty or subitems are broken.''\<rparr>, tr2)
                 else
                   let tr3 = tr2 @ [Build_ppro_command] in
                   (case build_ppro_command env (os_path db_obj) (PRPROJ_TEMPLATES_PATH env)
                           screen_files prof_files marker_times sync_offsets
                           (translate_non_alphanumerics env (name db_obj)) of
                      Inl e \<Rightarrow> (Inr \<lparr>status = FATAL_ERROR, message = Caught e\<rparr>, tr3)
                    | Inr ppro_command \<Rightarrow>
                        let exec_status = execute_command_sync env ppro_command 1;
                            tr4 = tr3 @ [Execute_command_sync ppro_command 1]
                        in if status exec_status \<noteq> SUCCESS then
                             (Inr \<lparr>status = FATAL_ERROR,
                                   message = Text ''Cannot execute PPro command. Check PPro configuration.''\<rparr>,
                              tr4)
                           else (Inr \<lparr>status = SUCCESS, message = No_message\<rparr>, tr4)))"

fun is_build_or_execute :: "export_call \<Rightarrow> bool" where
  "is_build_or_execute Build_ppro_command = True"
| "is_build_or_execute (Execute_command_sync c a) = True"
| "is_build_or_execute c = False"

fun is_execute :: "export_call \<Rightarrow> bool" where
  "is_execute (Execute_command_sync c a) = True"
| "is_execute c = False"

section \<open>Aggregation: get_target_step_files\<close>

text \<open>
  The four accumulators of the loop; the two dictionaries are association lists in
  insertion order, and \<^verbatim>\<open>d[k] = v\<close> is \<open>AList.update k v d\<close> (replace in place, or
  append a new key).
\<close>

definition substep_ok :: "export_env \<Rightarrow> SubStep \<Rightarrow> bool" where
  "substep_ok env substep \<longleftrightarrow>
     is_videos_ok substep \<and> os_path_isfile env (os_screencast_path substep)
       \<and> os_path_isfile env (os_path substep)"

fun step_loop :: "export_env \<Rightarrow> SubStep list \<Rightarrow> target_files \<Rightarrow> target_files" where
  "step_loop env [] acc = acc"
| "step_loop env (substep # rest) (screen_files, prof_files, marker_times, sync_offsets) =
     (if substep_ok env substep then
        let screen_files' = screen_files @ [screencast_name substep];
            prof_files' = prof_files @ [camera_recording_name substep];
            curr_sync_offset = get_sync_offset env substep;
            marker_times' = AList.update (screencast_name substep)
                              (get_diff_times env (os_screencast_path substep)) marker_times;
            sync_offsets' =
              (if curr_sync_offset > 0
               then AList.update (screencast_name substep) curr_sync_offset sync_offsets
               else AList.update (camera_recording_name substep) \<bar>curr_sync_offset\<bar> sync_offsets)
        in step_loop env rest (screen_files', prof_files', marker_times', sync_offsets')
      else step_loop env rest (screen_files, prof_files, marker_times, sync_offsets))"

definition get_target_step_files :: "export_env \<Rightarrow> db_object \<Rightarrow> target_files" where
  "get_target_step_files env step_obj = step_loop env (substeps_of env step_obj) ([], [], [], [])"

text \<open>
  The attribution rule in the specification's words: a positive offset goes to the screen
  filename, a zero or negative one to the professor filename, and the value stored is the
  absolute value.
\<close>

definition spec_offset_name :: "export_env \<Rightarrow> SubStep \<Rightarrow> string" where
  "spec_offset_name env substep =
     (if 0 < get_sync_offset env substep then screencast_name substep
      else camera_recording_name substep)"

definition spec_other_name :: "export_env \<Rightarrow> SubStep \<Rightarrow> string" where
  "spec_other_name env substep =
     (if 0 < get_sync_offset env substep then camera_recording_name substep
      else screencast_name substep)"

definition spec_record_offset :: "export_env \<Rightarrow> SubStep \<Rightarrow> (string \<times> int) list \<Rightarrow> (string \<times> int) list" where
  "spec_record_offset env substep offsets =
     AList.update (spec_offset_name env substep) \<bar>get_sync_offset env substep\<bar> offsets"

section \<open>ServerCameraRecorder\<close>

text \<open>
  The recorder's fields, the process handle it holds, and what it calls outside itself:
  the capture command constant, \<^verbatim>\<open>os.path.join\<close>, the two \<^verbatim>\<open>FileSystemClient\<close>
  operations it uses and the handle's \<^verbatim>\<open>poll()\<close> (\<open>None\<close> while the process runs).
\<close>

record Popen =
  pid :: int

record ServerCameraRecorder =
  process :: "Popen option"
  last_processed_path :: "string option"
  last_processed_file :: "string option"

record recorder_env =
  FFMPEGcommand :: string
  path_join :: "string \<Rightarrow> string \<Rightarrow> string"
  execute_command :: "string \<Rightarrow> InternalOperationResult \<times> Popen option"
  send_quit_signal :: "Popen \<Rightarrow> InternalOperationResult"
  poll :: "Popen \<Rightarrow> int option"

definition KILL_DELAY :: nat where
  "KILL_DELAY = 3"

text \<open>
  The recorder's interactions with the outside, in order:
  \<^verbatim>\<open>execute_command(cmd, stdin=PIPE)\<close>, \<^verbatim>\<open>send_quit_signal(process)\<close>,
  \<^verbatim>\<open>TaskManager().run_with_delay(FileSystemClient.kill_process, [pid], delay)\<close> and
  \<^verbatim>\<open>_apply_pipe(path, file)\<close>.
\<close>

datatype effect =
  Execute_command string
| Send_quit_signal Popen
| Run_with_delay_kill_process "int list" nat
| Apply_pipe "string option" "string option"

definition is_active :: "recorder_env \<Rightarrow> ServerCameraRecorder \<Rightarrow> bool" where
  "is_active env self \<longleftrightarrow>
     (case process self of None \<Rightarrow> False | Some p \<Rightarrow> poll env p = None)"

definition start_recording ::
  "recorder_env \<Rightarrow> string \<Rightarrow> string \<Rightarrow> ServerCameraRecorder \<Rightarrow>
   (exn + InternalOperationResult) \<times> ServerCameraRecorder \<times> effect list" where
  "start_recording env path filename self =
     (if is_active env self then
        (Inr \<lparr>status = FATAL_ERROR, message = Text ''Camera is actually recording''\<rparr>, self, [])
      else
        let local_command = FFMPEGcommand env @ path_join env path filename;
            (result, proc) = execute_command env local_command;
            self1 = self\<lparr>process := proc\<rparr>;
            effects = [Execute_command local_command]
        in if status result = SUCCESS then
             (case proc of
                None \<Rightarrow> (Inl AttributeError, self1, effects)
              | Some p \<Rightarrow>
                  (Inr result,
                   self1\<lparr>last_processed_file := Some filename, last_processed_path := Some path\<rparr>,
                   effects))
           else (Inr result, self1, effects))"

definition stop_recording ::
  "recorder_env \<Rightarrow> ServerCameraRecorder \<Rightarrow>
   InternalOperationResult \<times> ServerCameraRecorder \<times> effect list" where
  "stop_recording env self =
     (if \<not> is_active env self then
        (\<lparr>status = SUCCESS,
          message = Text (''Camera isn'' @ sq @ ''t active: can'' @ sq
                      @ ''t stop non existing FFMPEG process'')\<rparr>,
         (case process self of None \<Rightarrow> self | Some p \<Rightarrow> self\<lparr>process := None\<rparr>),
         [])
      else
        let p = the (process self);
            result = send_quit_signal env p;
            effects = [Send_quit_signal p, Run_with_delay_kill_process [pid p] KILL_DELAY]
        in if status result = SUCCESS then
             (result, self\<lparr>process := None\<rparr>,
              effects @ [Apply_pipe (last_processed_path self) (last_processed_file self)])
           else (result, self, effects))"

fun is_kill_task :: "effect \<Rightarrow> bool" where
  "is_kill_task (Run_with_delay_kill_process args delay) = True"
| "is_kill_task e = False"

section \<open>Example data\<close>

text \<open>
  A step with two intact SubSteps (offsets \<open>+120\<close> and \<open>-50\<close>) and a broken one
  between them, in an installation whose project template file is missing.
\<close>

definition example_substep_A :: SubStep where
  "example_substep_A =
     \<lparr>name = ''A'', os_path = ''/v/profA.TS'', is_videos_ok = True,
      os_screencast_path = ''/v/screenA.mkv'', screencast_name = ''screenA'',
      camera_recording_name = ''profA''\<rparr>"

definition example_substep_B :: SubStep where
  "example_substep_B =
     \<lparr>name = ''B'', os_path = ''/v/profB.TS'', is_videos_ok = True,
      os_screencast_path = ''/v/screenB.mkv'', screencast_name = ''screenB'',
      camera_recording_name = ''profB''\<rparr>"

definition example_substep_broken :: SubStep where
  "example_substep_broken =
     \<lparr>name = ''C'', os_path = ''/v/profC.TS'', is_videos_ok = False,
      os_screencast_path = ''/v/screenC.mkv'', screencast_name = ''screenC'',
      camera_recording_name = ''profC''\<rparr>"

definition example_step :: db_object where
  "example_step = \<lparr>name = ''Step 1'', os_path = ''/v''\<rparr>"

definition example_env :: export_env where
  "example_env =
     \<lparr>ADOBE_PPRO_PATH = Some ''/ppro/ppro.exe'',
      ADOBE_PPRO_CMD = ''/C es.processFile'',
      module_dir = ''/app'',
      os_path_join = (\<lambda>a b. a @ ''/'' @ b),
      os_path_dirname = (\<lambda>p. ''/ppro''),
      os_path_isfile = (\<lambda>p. p \<noteq> ''/app/adobe_templates/template.prproj''),
      replace_sep = (\<lambda>s. s),
      translate_non_alphanumerics = (\<lambda>s. s),
      format_number = (\<lambda>n. if n = 120 then ''120'' else if n = 50 then ''50'' else ''0''),
      process_with_name_exists = (\<lambda>n. False),
      execute_command_sync = (\<lambda>c a. \<lparr>status = SUCCESS, message = No_message\<rparr>),
      substeps_of = (\<lambda>st. [example_substep_A, example_substep_broken, example_substep_B]),
      get_sync_offset = (\<lambda>s. if screencast_name s = ''screenA'' then 120 else - 50),
      get_diff_times = (\<lambda>p. [])\<rparr>"

text \<open>
  A recorder environment whose camera cannot be started, a recorder holding the running
  process 42, and one holding a handle (process 7) that has already exited.
\<close>

definition example_recorder_env :: recorder_env where
  "example_recorder_env =
     \<lparr>FFMPEGcommand = ''ffmpeg -y -f dshow -i video=cam '',
      path_join = (\<lambda>a b. a @ ''/'' @ b),
      execute_command = (\<lambda>c. (\<lparr>status = FATAL_ERROR, message = Text ''no camera''\<rparr>, None)),
      send_quit_signal = (\<lambda>p. \<lparr>status = SUCCESS, message = No_message\<rparr>),
      poll = (\<lambda>p. if pid p = 42 then None else Some 0)\<rparr>"

definition example_recording :: ServerCameraRecorder where
  "example_recording =
     \<lparr>process = Some \<lparr>pid = 42\<rparr>, last_processed_path = Some ''/v'',
      last_processed_file = Some ''profA.TS''\<rparr>"

definition example_idle :: ServerCameraRecorder where
  "example_idle =
     \<lparr>process = Some \<lparr>pid = 7\<rparr>, last_processed_path = Some ''/v'',
      last_processed_file = Some ''profA.TS''\<rparr>"

section \<open>Properties of the builder\<close>

lemma call_other_fields:
  assumes "\<not> is_script_including c"
  shows "\<exists>t. call c b = Inr (b\<lparr>base_command := base_command b @ t\<rparr>)
           \<and> (\<forall>b'. call c b' = Inr (b'\<lparr>base_command := base_command b' @ t\<rparr>))"
  using assms
  by (cases c)
     (auto simp: append_opening_document_def append_eval_file_def append_string_const_def
        append_const_array_def append_bool_value_def append_dict_def Let_def)

lemma call_keeps_include:
  assumes "call c b = Inr b'" and "script_to_include b \<noteq> []"
  shows "script_to_include b' = script_to_include b"
  using assms
  by (cases c)
     (auto simp: append_opening_document_def append_eval_file_def append_string_const_def
        append_const_array_def append_bool_value_def append_dict_def append_script_including_def
        Let_def split: if_splits)

lemma calls_keeps_include:
  assumes "calls cs b = Inr b'" and "script_to_include b \<noteq> []"
  shows "script_to_include b' = script_to_include b"
  using assms
proof (induction cs arbitrary: b)
  case Nil
  then show ?case by simp
next
  case (Cons c cs)
  from Cons.prems(1) obtain b1 where c1: "call c b = Inr b1" and rest: "calls cs b1 = Inr b'"
    by (auto split: sum.splits)
  from call_keeps_include [OF c1 Cons.prems(2)] have keep: "script_to_include b1 = script_to_include b" .
  with Cons.prems(2) have "script_to_include b1 \<noteq> []" by simp
  from Cons.IH [OF rest this] keep show ?case by simp
qed

text \<open>
  Calls other than \<^verbatim>\<open>append_script_including\<close> never raise, and what they append to
  \<^verbatim>\<open>base_command\<close> does not depend on \<^verbatim>\<open>script_to_include\<close>.
\<close>

lemma calls_others:
  assumes "\<forall>c \<in> set cs. \<not> is_script_including c"
  shows "\<exists>t. \<forall>b. calls cs b = Inr (b\<lparr>base_command := base_command b @ t\<rparr>)"
  using assms
proof (induction cs)
  case Nil
  have "\<forall>b::PPROCommandBuilder. calls [] b = Inr (b\<lparr>base_command := base_command b @ []\<rparr>)"
    by simp
  then show ?case by blast
next
  case (Cons c cs)
  from Cons.prems have nc: "\<not> is_script_including c" by simp
  from call_other_fields [OF nc] obtain t1 where
    t1: "\<And>b. call c b = Inr (b\<lparr>base_command := base_command b @ t1\<rparr>)" by blast
  from Cons obtain t2 where
    t2: "\<And>b. calls cs b = Inr (b\<lparr>base_command := base_command b @ t2\<rparr>)" by auto
  have "\<forall>b. calls (c # cs) b = Inr (b\<lparr>base_command := base_command b @ (t1 @ t2)\<rparr>)"
    by (simp add: t1 t2)
  then show ?case by blast
qed

lemma calls_append:
  "calls (xs @ ys) b = (case calls xs b of Inl e \<Rightarrow> Inl e | Inr b' \<Rightarrow> calls ys b')"
  by (induction xs arbitrary: b) (auto split: sum.splits)

text \<open>
  Claim C9. On any builder, once \<^verbatim>\<open>append_script_including\<close> has succeeded, a second
  call raises the contract-violation exception, whatever the two paths are (equal or
  different) and whatever other append calls were made in between.
\<close>

theorem second_script_including_raises:
  assumes "append_script_including path1 b = Inr b1" and "calls between b1 = Inr b2"
  shows "append_script_including path2 b2 = Inl (Exception ''Command already contains script including'')"
proof -
  from assms(1) have ne: "script_to_include b1 \<noteq> []"
    by (auto simp: append_script_including_def split: if_splits)
  from calls_keeps_include [OF assms(2) ne] ne have "script_to_include b2 \<noteq> []" by simp
  then show ?thesis by (simp add: append_script_including_def)
qed

theorem second_script_including_raises_witness:
  "\<exists>b1 b2. append_script_including ''a.jsx'' (PPROCommandBuilder_init ''ppro'') = Inr b1
     \<and> calls [String_const ''n'' ''v'', Bool_value ''f'' False] b1 = Inr b2
     \<and> append_script_including ''a.jsx'' b2 = Inl (Exception ''Command already contains script including'')
     \<and> append_script_including ''other.jsx'' b2 = Inl (Exception ''Command already contains script including'')"
proof -
  obtain b1 where h1: "append_script_including ''a.jsx'' (PPROCommandBuilder_init ''ppro'') = Inr b1"
    by (simp add: append_script_including_def PPROCommandBuilder_init_def)
  obtain b2 where h2: "calls [String_const ''n'' ''v'', Bool_value ''f'' False] b1 = Inr b2"
    by simp
  from second_script_including_raises [OF h1 h2, of "''a.jsx''"]
       second_script_including_raises [OF h1 h2, of "''other.jsx''"] h1 h2
  show ?thesis by blast
qed

text \<open>
  Claim C2. On a fresh builder, let \<^verbatim>\<open>append_script_including\<close> be called once, at any
  position among other append calls. Then no call raises, and the text \<^verbatim>\<open>build()\<close>
  returns is everything the other calls appended, in their order, followed by the include
  directive and the closing quote: the directive comes after all other content whatever
  the position of its call.
\<close>

theorem build_include_last:
  assumes "\<forall>c \<in> set (before @ after). \<not> is_script_including c"
  shows "\<exists>b_all b_rest.
           calls (before @ Script_including path # after) (PPROCommandBuilder_init base) = Inr b_all
         \<and> calls (before @ after) (PPROCommandBuilder_init base) = Inr b_rest
         \<and> fst (build b_all) = base_command b_rest @ '' //@include '' @ sq @ path @ sq @ dq"
proof -
  from assms have nb: "\<forall>c \<in> set before. \<not> is_script_including c"
    and na: "\<forall>c \<in> set after. \<not> is_script_including c" by auto
  from calls_others [OF nb] obtain t1 where
    t1: "\<And>b. calls before b = Inr (b\<lparr>base_command := base_command b @ t1\<rparr>)" by blast
  from calls_others [OF na] obtain t2 where
    t2: "\<And>b. calls after b = Inr (b\<lparr>base_command := base_command b @ t2\<rparr>)" by blast
  let ?b0 = "PPROCommandBuilder_init base"
  let ?inc = "'' //@include '' @ sq @ path @ sq"
  have e0: "script_to_include ?b0 = []" by (simp add: PPROCommandBuilder_init_def)
  have rest: "calls (before @ after) ?b0 = Inr (?b0\<lparr>base_command := base_command ?b0 @ t1 @ t2\<rparr>)"
    by (simp add: calls_append t1 t2)
  have all: "calls (before @ Script_including path # after) ?b0
               = Inr (?b0\<lparr>base_command := base_command ?b0 @ t1 @ t2, script_to_include := ?inc\<rparr>)"
    by (simp add: calls_append t1 t2 append_script_including_def e0)
  have "fst (build (?b0\<lparr>base_command := base_command ?b0 @ t1 @ t2, script_to_include := ?inc\<rparr>))
          = (base_command ?b0 @ t1 @ t2) @ ?inc @ dq"
    by (simp add: build_def Let_def)
  with rest all show ?thesis by simp
qed

theorem build_include_last_witness:
  "\<exists>b_all b_rest.
     calls ([Script_including ''s.jsx'', String_const ''n'' ''v''])
        (PPROCommandBuilder_init ''ppro'') = Inr b_all
   \<and> calls [String_const ''n'' ''v''] (PPROCommandBuilder_init ''ppro'') = Inr b_rest
   \<and> fst (build b_all) = base_command b_rest @ '' //@include '' @ sq @ ''s.jsx'' @ sq @ dq"
  using build_include_last [of "[]" "[String_const ''n'' ''v'']" "''s.jsx''" "''ppro''"]
  by simp

section \<open>Properties of get_target_step_files\<close>

lemma step_loop_offsets:
  "snd (snd (snd (step_loop env ss (sf, pf, mt, so))))
     = fold (spec_record_offset env) (filter (substep_ok env) ss) so"
proof (induction ss arbitrary: sf pf mt so)
  case Nil
  show ?case by simp
next
  case (Cons s ss)
  show ?case
  proof (cases "substep_ok env s")
    case True
    have "(if get_sync_offset env s > 0
           then AList.update (screencast_name s) (get_sync_offset env s) so
           else AList.update (camera_recording_name s) \<bar>get_sync_offset env s\<bar> so)
          = spec_record_offset env s so"
      by (simp add: spec_record_offset_def spec_offset_name_def)
    with True Cons.IH show ?thesis by (simp add: Let_def)
  next
    case False
    with Cons.IH show ?thesis by simp
  qed
qed

lemma fold_update_keys:
  "fst ` set (fold (\<lambda>s. AList.update (k s) (v s)) xs al) = fst ` set al \<union> k ` set xs"
  by (induction xs arbitrary: al) (auto simp: dom_update)

lemma fold_update_other:
  "key \<notin> k ` set xs \<Longrightarrow> map_of (fold (\<lambda>s. AList.update (k s) (v s)) xs al) key = map_of al key"
  by (induction xs arbitrary: al) (auto simp: update_conv')

lemma fold_update_lookup:
  "distinct (map k xs) \<Longrightarrow> s \<in> set xs \<Longrightarrow>
   map_of (fold (\<lambda>s. AList.update (k s) (v s)) xs al) (k s) = Some (v s)"
proof (induction xs arbitrary: al)
  case Nil
  then show ?case by simp
next
  case (Cons x xs)
  show ?case
  proof (cases "s \<in> set xs")
    case True
    with Cons show ?thesis by simp
  next
    case False
    with Cons.prems have sx: "s = x" and notin: "k x \<notin> k ` set xs" by auto
    show ?thesis
      by (simp add: sx update_conv' fold_update_other [OF notin])
  qed
qed

lemma fold_update_length:
  "distinct (map k xs) \<Longrightarrow> k ` set xs \<inter> fst ` set al = {} \<Longrightarrow>
   length (fold (\<lambda>s. AList.update (k s) (v s)) xs al) = length al + length xs"
proof (induction xs arbitrary: al)
  case Nil
  then show ?case by simp
next
  case (Cons x xs)
  from Cons.prems have nx: "k x \<notin> fst ` set al" by auto
  then have len: "length (AList.update (k x) (v x) al) = Suc (length al)"
    using update_keys [of "k x" "v x" al] by (metis length_append_singleton length_map set_map)
  from Cons.prems have "k ` set xs \<inter> fst ` set (AList.update (k x) (v x) al) = {}"
    by (auto simp: dom_update)
  with Cons.IH [of "AList.update (k x) (v x) al"] Cons.prems(1) len show ?case by simp
qed

lemma spec_names_distinct:
  assumes "distinct (map screencast_name xs @ map camera_recording_name xs)"
  shows "distinct (map (spec_offset_name env) xs)"
  using assms
proof (induction xs)
  case Nil
  show ?case by simp
next
  case (Cons x xs)
  from Cons.prems have d: "distinct (map screencast_name xs @ map camera_recording_name xs)"
    by simp
  from Cons.prems have a: "screencast_name x \<notin> screencast_name ` set xs"
    and b: "screencast_name x \<notin> camera_recording_name ` set xs"
    and c: "camera_recording_name x \<notin> camera_recording_name ` set xs"
    and e: "camera_recording_name x \<notin> screencast_name ` set xs"
    by auto
  have "spec_offset_name env x \<notin> spec_offset_name env ` set xs"
  proof
    assume "spec_offset_name env x \<in> spec_offset_name env ` set xs"
    then obtain y where y: "y \<in> set xs" and eq: "spec_offset_name env x = spec_offset_name env y"
      by blast
    from y a b c e have "screencast_name x \<noteq> screencast_name y"
      "screencast_name x \<noteq> camera_recording_name y"
      "camera_recording_name x \<noteq> camera_recording_name y"
      "camera_recording_name x \<noteq> screencast_name y" by blast+
    with eq show False by (simp add: spec_offset_name_def split: if_splits)
  qed
  with Cons.IH [OF d] show ?case by simp
qed

lemma spec_other_name_unused:
  assumes "distinct (map screencast_name xs @ map camera_recording_name xs)" and "s \<in> set xs"
  shows "spec_other_name env s \<notin> spec_offset_name env ` set xs"
proof
  assume "spec_other_name env s \<in> spec_offset_name env ` set xs"
  then obtain y where y: "y \<in> set xs" and eq: "spec_other_name env s = spec_offset_name env y"
    by blast
  from assms(1) have inj1: "inj_on screencast_name (set xs)"
    and inj2: "inj_on camera_recording_name (set xs)"
    and disj: "screencast_name ` set xs \<inter> camera_recording_name ` set xs = {}"
    by (simp_all add: distinct_map)
  from disj assms(2) y have cross: "screencast_name s \<noteq> camera_recording_name y"
    "camera_recording_name s \<noteq> screencast_name y" by blast+
  from cross eq have same: "(screencast_name s = screencast_name y \<and> 0 < get_sync_offset env y \<and> \<not> 0 < get_sync_offset env s)
      \<or> (camera_recording_name s = camera_recording_name y \<and> \<not> 0 < get_sync_offset env y \<and> 0 < get_sync_offset env s)"
    by (auto simp: spec_other_name_def spec_offset_name_def split: if_splits)
  with inj1 inj2 assms(2) y have "s = y" by (auto dest: inj_onD)
  with same show False by auto
qed

text \<open>
  Claim C1. The offsets dictionary \<^verbatim>\<open>get_target_step_files\<close> returns is built by
  exactly one write per valid SubStep, in order: keyed by the screen-capture filename when
  the offset is positive and by the professor-feed filename otherwise, with the absolute
  value of the offset. Its keys are exactly these names. When the filenames of the valid
  SubSteps are pairwise distinct, there are as many entries as valid SubSteps, and for
  each of them the chosen filename holds the absolute offset while the other filename has
  no entry.
\<close>

theorem offsets_one_entry_per_valid_substep:
  "let valid = filter (substep_ok env) (substeps_of env step_obj);
       offsets = snd (snd (snd (get_target_step_files env step_obj)))
   in offsets = fold (spec_record_offset env) valid []
      \<and> fst ` set offsets = spec_offset_name env ` set valid
      \<and> (distinct (map screencast_name valid @ map camera_recording_name valid) \<longrightarrow>
           length offsets = length valid
           \<and> (\<forall>s \<in> set valid.
                 map_of offsets (spec_offset_name env s) = Some \<bar>get_sync_offset env s\<bar>
               \<and> map_of offsets (spec_other_name env s) = None))"
proof -
  define valid where "valid = filter (substep_ok env) (substeps_of env step_obj)"
  define offsets where "offsets = snd (snd (snd (get_target_step_files env step_obj)))"
  let ?k = "spec_offset_name env" and ?v = "\<lambda>s. \<bar>get_sync_offset env s\<bar>"
  have rec: "spec_record_offset env = (\<lambda>s. AList.update (?k s) (?v s))"
    by (intro ext) (simp add: spec_record_offset_def)
  have eq: "offsets = fold (\<lambda>s. AList.update (?k s) (?v s)) valid []"
    unfolding offsets_def valid_def get_target_step_files_def rec [symmetric]
    by (rule step_loop_offsets)
  have keys: "fst ` set offsets = ?k ` set valid"
    unfolding eq by (simp add: fold_update_keys)
  have cond: "length offsets = length valid
      \<and> (\<forall>s \<in> set valid. map_of offsets (?k s) = Some (?v s)
            \<and> map_of offsets (spec_other_name env s) = None)"
    if d: "distinct (map screencast_name valid @ map camera_recording_name valid)"
  proof -
    from spec_names_distinct [OF d] have dk: "distinct (map ?k valid)" .
    have len: "length offsets = length valid"
      unfolding eq using fold_update_length [OF dk, of "[]" ?v] by simp
    have "map_of offsets (?k s) = Some (?v s) \<and> map_of offsets (spec_other_name env s) = None"
      if s: "s \<in> set valid" for s
    proof
      show "map_of offsets (?k s) = Some (?v s)"
        unfolding eq by (rule fold_update_lookup [OF dk s])
      from spec_other_name_unused [OF d s]
      show "map_of offsets (spec_other_name env s) = None"
        unfolding eq by (simp add: fold_update_other)
    qed
    with len show ?thesis by blast
  qed
  from eq keys cond show ?thesis
    unfolding Let_def valid_def [symmetric] offsets_def [symmetric] rec by blast
qed

theorem offsets_one_entry_per_valid_substep_witness:
  "filter (substep_ok example_env) (substeps_of example_env example_step)
     = [example_substep_A, example_substep_B]
   \<and> distinct (map screencast_name [example_substep_A, example_substep_B]
        @ map camera_recording_name [example_substep_A, example_substep_B])
   \<and> get_target_step_files example_env example_step
       = ([''screenA'', ''screenB''], [''profA'', ''profB''],
          [(''screenA'', []), (''screenB'', [])], [(''screenA'', 120), (''profB'', 50)])
   \<and> map_of (snd (snd (snd (get_target_step_files example_env example_step)))) ''screenA'' = Some 120
   \<and> map_of (snd (snd (snd (get_target_step_files example_env example_step)))) ''profA'' = None
   \<and> map_of (snd (snd (snd (get_target_step_files example_env example_step)))) ''profB'' = Some 50
   \<and> map_of (snd (snd (snd (get_target_step_files example_env example_step)))) ''screenB'' = None"
  using offsets_one_entry_per_valid_substep [of example_env example_step]
  by (simp add: Let_def example_env_def example_substep_A_def example_substep_B_def
        example_substep_broken_def example_step_def substep_ok_def get_target_step_files_def
        spec_record_offset_def spec_offset_name_def spec_other_name_def)

section \<open>Properties of export_obj_to_prproj\<close>

lemma example_build_raises:
  "build_ppro_command example_env (os_path example_step) (PRPROJ_TEMPLATES_PATH example_env)
     [''screenA'', ''screenB''] [''profA'', ''profB'']
     [(''screenA'', []), (''screenB'', [])] [(''screenA'', 120), (''profB'', 50)]
     (translate_non_alphanumerics example_env (name example_step))
   = Inl (Exception (''Template of PremierPro project is missing. ''
        @ ''Please, create empty PPro project at /app/adobe_templates/template.prproj''))"
  by (simp add: build_ppro_command_def example_env_def PRPROJ_TEMPLATES_PATH_def
        PRPROJ_TEMPLATE_def Let_def)

lemma example_target_files:
  "get_target_step_files example_env example_step
     = ([''screenA'', ''screenB''], [''profA'', ''profB''],
        [(''screenA'', []), (''screenB'', [])], [(''screenA'', 120), (''profB'', 50)])"
  by (simp add: get_target_step_files_def example_env_def example_substep_A_def
        example_substep_B_def example_substep_broken_def substep_ok_def Let_def)

lemma build_ppro_command_missing_configuration:
  assumes "ADOBE_PPRO_PATH env = None \<or> ADOBE_PPRO_PATH env = Some []"
  shows "build_ppro_command env base_path templates_path screen_files prof_files marker_times
           sync_offsets output_name
         = Inl (Exception (''Adobe PremierePro configuration is missing. ''
                  @ ''Please, specify path to PremierePro in config file.''))"
  using assms by (auto simp: build_ppro_command_def)

text \<open>
  The only exception that leaves \<^verbatim>\<open>export_obj_to_prproj\<close> is the one of line 136
  (\<^verbatim>\<open>os.path.dirname\<close> of an unset path), before any check is made.
\<close>

lemma export_raises_only_without_path:
  "fst (export_obj_to_prproj env db_obj files_extractor) = Inl e
   \<longleftrightarrow> e = TypeError \<and> ADOBE_PPRO_PATH env = None"
  by (auto simp: export_obj_to_prproj_def Let_def split: option.splits prod.splits sum.splits)

lemma example_export_success:
  "\<exists>cmd. export_obj_to_prproj (example_env\<lparr>os_path_isfile := \<lambda>p. True\<rparr>) example_step
      (get_target_step_files example_env)
    = (Inr \<lparr>status = SUCCESS, message = No_message\<rparr>,
       [Process_with_name_exists ''Adobe Premiere Pro.exe'', Files_extractor, Build_ppro_command,
        Execute_command_sync cmd 1])"
  unfolding export_obj_to_prproj_def example_target_files
  by (simp add: Let_def build_ppro_command_def
        example_env_def PRPROJ_REQUIRED_FILE_def PPRO_WIN_PROCESS_NAME_def
        append_script_including_def append_dict_def append_bool_value_def
        append_const_array_def append_string_const_def append_opening_document_def
        PPROCommandBuilder_init_def)

text \<open>
  Claim C3. When the export reaches the process check (the tool path is set and the
  required file is present) and the editing tool's process is found running, it returns
  the fatal-error result "Only one instance of PPro may exist ..." for every object and
  every extractor; the process check is the only call it has made: the extractor is not
  called, no command is built and none is executed.
\<close>

theorem export_while_ppro_running:
  assumes "ADOBE_PPRO_PATH env = Some ppro_path"
    and "os_path_isfile env (os_path_join env (os_path_dirname env ppro_path) PRPROJ_REQUIRED_FILE)"
    and "process_with_name_exists env PPRO_WIN_PROCESS_NAME"
  shows "export_obj_to_prproj env db_obj files_extractor
           = (Inr \<lparr>status = FATAL_ERROR,
                   message = Text ''Only one instance of PPro may exist. Please, close PPro and try again.''\<rparr>,
              [Process_with_name_exists PPRO_WIN_PROCESS_NAME])
       \<and> filter is_build_or_execute (snd (export_obj_to_prproj env db_obj files_extractor)) = []"
  using assms by (simp add: export_obj_to_prproj_def Let_def)

theorem export_while_ppro_running_witness:
  "ADOBE_PPRO_PATH (example_env\<lparr>process_with_name_exists := \<lambda>n. True\<rparr>) = Some ''/ppro/ppro.exe''
   \<and> export_obj_to_prproj (example_env\<lparr>process_with_name_exists := \<lambda>n. True\<rparr>) example_step
        (get_target_step_files (example_env\<lparr>process_with_name_exists := \<lambda>n. True\<rparr>))
       = (Inr \<lparr>status = FATAL_ERROR,
               message = Text ''Only one instance of PPro may exist. Please, close PPro and try again.''\<rparr>,
          [Process_with_name_exists ''Adobe Premiere Pro.exe''])"
proof -
  let ?env = "example_env\<lparr>process_with_name_exists := \<lambda>n. True\<rparr>"
  have a: "ADOBE_PPRO_PATH ?env = Some ''/ppro/ppro.exe''"
    by (simp add: example_env_def)
  have b: "os_path_isfile ?env (os_path_join ?env (os_path_dirname ?env ''/ppro/ppro.exe'')
             PRPROJ_REQUIRED_FILE)"
    by (simp add: example_env_def PRPROJ_REQUIRED_FILE_def)
  have c: "process_with_name_exists ?env PPRO_WIN_PROCESS_NAME"
    by (simp add: example_env_def)
  from export_while_ppro_running [OF a b c, of example_step "get_target_step_files ?env"] a
  show ?thesis by (simp add: PPRO_WIN_PROCESS_NAME_def)
qed

text \<open>
  Claim C4. When the extractor is reached (the earlier checks pass) and it returns an
  empty screen-filename list or an empty professor-filename list, the export returns the
  fatal-error result "Object is empty or subitems are broken." and nothing is handed to
  \<^verbatim>\<open>execute_command_sync\<close>.
\<close>

theorem export_empty_files:
  assumes "ADOBE_PPRO_PATH env = Some ppro_path"
    and "os_path_isfile env (os_path_join env (os_path_dirname env ppro_path) PRPROJ_REQUIRED_FILE)"
    and "\<not> process_with_name_exists env PPRO_WIN_PROCESS_NAME"
    and "files_extractor db_obj = (screen_files, prof_files, marker_times, sync_offsets)"
    and "screen_files = [] \<or> prof_files = []"
  shows "export_obj_to_prproj env db_obj files_extractor
           = (Inr \<lparr>status = FATAL_ERROR,
                   message = Text ''Object is empty or subitems are broken.''\<rparr>,
              [Process_with_name_exists PPRO_WIN_PROCESS_NAME, Files_extractor])
       \<and> filter is_execute (snd (export_obj_to_prproj env db_obj files_extractor)) = []"
  using assms by (auto simp: export_obj_to_prproj_def Let_def)

theorem export_empty_files_witness:
  "get_target_step_files (example_env\<lparr>substeps_of := \<lambda>st. [example_substep_broken]\<rparr>) example_step
     = ([], [], [], [])
   \<and> export_obj_to_prproj (example_env\<lparr>substeps_of := \<lambda>st. [example_substep_broken]\<rparr>) example_step
        (get_target_step_files (example_env\<lparr>substeps_of := \<lambda>st. [example_substep_broken]\<rparr>))
       = (Inr \<lparr>status = FATAL_ERROR,
               message = Text ''Object is empty or subitems are broken.''\<rparr>,
          [Process_with_name_exists ''Adobe Premiere Pro.exe'', Files_extractor])"
proof -
  let ?env = "example_env\<lparr>substeps_of := \<lambda>st. [example_substep_broken]\<rparr>"
  have a: "ADOBE_PPRO_PATH ?env = Some ''/ppro/ppro.exe''"
    by (simp add: example_env_def)
  have b: "os_path_isfile ?env (os_path_join ?env (os_path_dirname ?env ''/ppro/ppro.exe'')
             PRPROJ_REQUIRED_FILE)"
    by (simp add: example_env_def PRPROJ_REQUIRED_FILE_def)
  have c: "\<not> process_with_name_exists ?env PPRO_WIN_PROCESS_NAME"
    by (simp add: example_env_def)
  have d: "get_target_step_files ?env example_step = ([], [], [], [])"
    by (simp add: get_target_step_files_def example_env_def example_substep_broken_def
          substep_ok_def)
  have e: "([]::string list) = [] \<or> ([]::string list) = []" by simp
  from export_empty_files [where files_extractor = "get_target_step_files ?env"
         and db_obj = example_step, OF a b c d e] d show ?thesis
    by (simp add: PPRO_WIN_PROCESS_NAME_def)
qed

text \<open>
  Claim C5. When \<^verbatim>\<open>build_ppro_command\<close> raises an exception \<open>e\<close> inside
  \<^verbatim>\<open>export_obj_to_prproj\<close>, the export does not raise: it returns a fatal-error
  result whose message is \<open>e\<close>, and no command is executed.
\<close>

theorem export_build_exception_caught:
  assumes "ADOBE_PPRO_PATH env = Some ppro_path"
    and "os_path_isfile env (os_path_join env (os_path_dirname env ppro_path) PRPROJ_REQUIRED_FILE)"
    and "\<not> process_with_name_exists env PPRO_WIN_PROCESS_NAME"
    and "files_extractor db_obj = (screen_files, prof_files, marker_times, sync_offsets)"
    and "screen_files \<noteq> []" and "prof_files \<noteq> []"
    and "build_ppro_command env (os_path db_obj) (PRPROJ_TEMPLATES_PATH env) screen_files prof_files
           marker_times sync_offsets (translate_non_alphanumerics env (name db_obj)) = Inl e"
  shows "export_obj_to_prproj env db_obj files_extractor
           = (Inr \<lparr>status = FATAL_ERROR, message = Caught e\<rparr>,
              [Process_with_name_exists PPRO_WIN_PROCESS_NAME, Files_extractor, Build_ppro_command])"
  using assms by (simp add: export_obj_to_prproj_def Let_def)

theorem export_build_exception_caught_witness:
  "export_obj_to_prproj example_env example_step (get_target_step_files example_env)
     = (Inr \<lparr>status = FATAL_ERROR,
             message = Caught (Exception (''Template of PremierPro project is missing. ''
               @ ''Please, create empty PPro project at /app/adobe_templates/template.prproj''))\<rparr>,
        [Process_with_name_exists ''Adobe Premiere Pro.exe'', Files_extractor, Build_ppro_command])"
proof -
  have a: "ADOBE_PPRO_PATH example_env = Some ''/ppro/ppro.exe''"
    by (simp add: example_env_def)
  have b: "os_path_isfile example_env (os_path_join example_env
             (os_path_dirname example_env ''/ppro/ppro.exe'') PRPROJ_REQUIRED_FILE)"
    by (simp add: example_env_def PRPROJ_REQUIRED_FILE_def)
  have c: "\<not> process_with_name_exists example_env PPRO_WIN_PROCESS_NAME"
    by (simp add: example_env_def)
  have f: "[''screenA'', ''screenB''] \<noteq> []" by simp
  have g: "[''profA'', ''profB''] \<noteq> []" by simp
  from export_build_exception_caught [where files_extractor = "get_target_step_files example_env"
         and db_obj = example_step, OF a b c example_target_files f g example_build_raises]
  show ?thesis by (simp add: PPRO_WIN_PROCESS_NAME_def)
qed

section \<open>Properties of ServerCameraRecorder\<close>

text \<open>
  Claim C6. When a capture process is active, \<^verbatim>\<open>start_recording\<close> returns the
  fatal-error result "Camera is actually recording", leaves the recorder exactly as it
  was (process handle, \<^verbatim>\<open>last_processed_path\<close>, \<^verbatim>\<open>last_processed_file\<close>) and launches
  nothing.
\<close>

theorem start_recording_while_active:
  assumes "is_active env self"
  shows "start_recording env path filename self
           = (Inr \<lparr>status = FATAL_ERROR, message = Text ''Camera is actually recording''\<rparr>, self, [])"
  using assms by (simp add: start_recording_def)

theorem start_recording_while_active_witness:
  "is_active example_recorder_env example_recording
   \<and> start_recording example_recorder_env ''/v'' ''profB.TS'' example_recording
       = (Inr \<lparr>status = FATAL_ERROR, message = Text ''Camera is actually recording''\<rparr>,
          example_recording, [])"
proof -
  have a: "is_active example_recorder_env example_recording"
    by (simp add: is_active_def example_recorder_env_def example_recording_def)
  from a start_recording_while_active [OF a] show ?thesis by simp
qed

text \<open>
  Claim C7. When no capture process is active, \<^verbatim>\<open>stop_recording\<close> returns a success
  result and interacts with no process: no quit signal is sent and no kill task is
  scheduled. (The stale handle, if any, is dropped; the last processed path and file stay.)
\<close>

theorem stop_recording_idle:
  assumes "\<not> is_active env self"
  shows "status (fst (stop_recording env self)) = SUCCESS
       \<and> snd (snd (stop_recording env self)) = []
       \<and> process (fst (snd (stop_recording env self))) = None
       \<and> last_processed_path (fst (snd (stop_recording env self))) = last_processed_path self
       \<and> last_processed_file (fst (snd (stop_recording env self))) = last_processed_file self"
  using assms by (simp add: stop_recording_def split: option.splits)

theorem stop_recording_idle_witness:
  "\<not> is_active example_recorder_env example_idle
   \<and> status (fst (stop_recording example_recorder_env example_idle)) = SUCCESS
   \<and> snd (snd (stop_recording example_recorder_env example_idle)) = []"
proof -
  have a: "\<not> is_active example_recorder_env example_idle"
    by (simp add: is_active_def example_recorder_env_def example_idle_def)
  from a stop_recording_idle [OF a] show ?thesis by simp
qed

text \<open>
  Claim C8. When a capture process is active, \<^verbatim>\<open>stop_recording\<close> schedules exactly one
  forced-kill task, for that process's pid, with delay 3, whatever
  \<^verbatim>\<open>send_quit_signal\<close> reports.
\<close>

theorem stop_recording_schedules_kill:
  assumes "is_active env self"
  shows "\<exists>p. process self = Some p
           \<and> filter is_kill_task (snd (snd (stop_recording env self)))
               = [Run_with_delay_kill_process [pid p] 3]"
proof -
  from assms obtain p where p: "process self = Some p"
    by (auto simp: is_active_def split: option.splits)
  with assms show ?thesis
    by (simp add: stop_recording_def Let_def KILL_DELAY_def)
qed

theorem stop_recording_schedules_kill_witness:
  "is_active example_recorder_env example_recording
   \<and> is_active (example_recorder_env\<lparr>send_quit_signal :=
          \<lambda>p. \<lparr>status = FATAL_ERROR, message = Text ''broken pipe''\<rparr>\<rparr>) example_recording
   \<and> filter is_kill_task (snd (snd (stop_recording example_recorder_env example_recording)))
       = [Run_with_delay_kill_process [42] 3]
   \<and> filter is_kill_task (snd (snd (stop_recording
         (example_recorder_env\<lparr>send_quit_signal :=
            \<lambda>p. \<lparr>status = FATAL_ERROR, message = Text ''broken pipe''\<rparr>\<rparr>) example_recording)))
       = [Run_with_delay_kill_process [42] 3]"
proof -
  let ?env' = "example_recorder_env\<lparr>send_quit_signal :=
          \<lambda>p. \<lparr>status = FATAL_ERROR, message = Text ''broken pipe''\<rparr>\<rparr>"
  have a: "is_active example_recorder_env example_recording"
    by (simp add: is_active_def example_recorder_env_def example_recording_def)
  have b: "is_active ?env' example_recording"
    by (simp add: is_active_def example_recorder_env_def example_recording_def)
  from a b stop_recording_schedules_kill [OF a] stop_recording_schedules_kill [OF b]
  show ?thesis by (simp add: example_recording_def)
qed

text \<open>
  Claim C10. When \<^verbatim>\<open>start_recording\<close> passes the activity check and the launch reports
  failure, \<^verbatim>\<open>last_processed_path\<close> and \<^verbatim>\<open>last_processed_file\<close> are unchanged, the
  process handle is whatever the launch returned, and the launch result is returned.
\<close>

theorem start_recording_launch_failure:
  assumes "\<not> is_active env self"
    and "execute_command env (FFMPEGcommand env @ path_join env path filename) = (result, proc)"
    and "status result \<noteq> SUCCESS"
  shows "fst (start_recording env path filename self) = Inr result
       \<and> last_processed_path (fst (snd (start_recording env path filename self)))
           = last_processed_path self
       \<and> last_processed_file (fst (snd (start_recording env path filename self)))
           = last_processed_file self
       \<and> process (fst (snd (start_recording env path filename self))) = proc"
  using assms by (simp add: start_recording_def Let_def)

theorem start_recording_launch_failure_witness:
  "\<not> is_active example_recorder_env example_idle
   \<and> execute_command example_recorder_env
        (FFMPEGcommand example_recorder_env @ path_join example_recorder_env ''/w'' ''profB.TS'')
       = (\<lparr>status = FATAL_ERROR, message = Text ''no camera''\<rparr>, None)
   \<and> start_recording example_recorder_env ''/w'' ''profB.TS'' example_idle
       = (Inr \<lparr>status = FATAL_ERROR, message = Text ''no camera''\<rparr>,
          \<lparr>process = None, last_processed_path = Some ''/v'', last_processed_file = Some ''profA.TS''\<rparr>,
          [Execute_command ''ffmpeg -y -f dshow -i video=cam /w/profB.TS''])"
proof -
  have a: "\<not> is_active example_recorder_env example_idle"
    by (simp add: is_active_def example_recorder_env_def example_idle_def)
  have b: "execute_command example_recorder_env
        (FFMPEGcommand example_recorder_env @ path_join example_recorder_env ''/w'' ''profB.TS'')
       = (\<lparr>status = FATAL_ERROR, message = Text ''no camera''\<rparr>, None)"
    by (simp add: example_recorder_env_def)
  have c: "status \<lparr>status = FATAL_ERROR, message = Text ''no camera''\<rparr> \<noteq> SUCCESS" by simp
  from start_recording_launch_failure [OF a b c] a b show ?thesis
    by (simp add: start_recording_def Let_def example_recorder_env_def example_idle_def is_active_def)
qed

end
